theory Spec2Isabelle
  imports Complex_Main
begin

section \<open>Python primitives used by the program\<close>

text \<open>
  Python floats are modelled as reals: comparisons, sums and products are the exact
  ones, and the special values (NaN, infinities) are not represented. Python integers
  are \<open>int\<close>; lengths of sequences are \<open>nat\<close>.
\<close>

datatype py_error = ValueError | ZeroDivisionError

text \<open>Rounding to the nearest integer, ties going to the even neighbour.\<close>

definition round_half_even :: "real \<Rightarrow> int" where
  "round_half_even x =
     (let f = \<lfloor>x\<rfloor>; d = x - of_int f
      in if d < 1 / 2 then f
         else if 1 / 2 < d then f + 1
         else if even f then f else f + 1)"

text \<open>\<open>round(x, ndigits)\<close> on a float.\<close>

definition py_round :: "real \<Rightarrow> nat \<Rightarrow> real" where
  "py_round x ndigits = of_int (round_half_even (x * 10 ^ ndigits)) / 10 ^ ndigits"

text \<open>\<open>int(x)\<close> on a float truncates towards zero.\<close>

definition py_int :: "real \<Rightarrow> int" where
  "py_int x = (if 0 \<le> x then \<lfloor>x\<rfloor> else \<lceil>x\<rceil>)"

text \<open>
  Slice bounds: a negative bound counts from the end, and every bound is clipped to
  the sequence.
\<close>

definition slice_bound :: "nat \<Rightarrow> int \<Rightarrow> nat" where
  "slice_bound n i = (if i < 0 then nat (max (i + int n) 0) else min (nat i) n)"

text \<open>\<open>xs[i:j]\<close>, \<open>xs[i:]\<close> and \<open>xs[:j]\<close>.\<close>

definition py_slice :: "'a list \<Rightarrow> int \<Rightarrow> int \<Rightarrow> 'a list" where
  "py_slice xs i j =
     (let lo = slice_bound (length xs) i; hi = slice_bound (length xs) j
      in take (hi - lo) (drop lo xs))"

definition py_slice_from :: "'a list \<Rightarrow> int \<Rightarrow> 'a list" where
  "py_slice_from xs i = drop (slice_bound (length xs) i) xs"

definition py_slice_to :: "'a list \<Rightarrow> int \<Rightarrow> 'a list" where
  "py_slice_to xs j = take (slice_bound (length xs) j) xs"

text \<open>\<open>sep.join(parts)\<close>.\<close>

fun py_join :: "string \<Rightarrow> string list \<Rightarrow> string" where
  "py_join sep [] = []"
| "py_join sep [x] = x"
| "py_join sep (x # y # ys) = x @ sep @ py_join sep (y # ys)"

text \<open>
  \<open>collections.deque(maxlen=m)\<close>: appending to a full deque drops the oldest
  element; a deque of capacity zero stays empty.
\<close>

record 'a deque =
  maxlen :: nat
  items :: "'a list"

definition deque_new :: "int \<Rightarrow> py_error + 'a deque" where
  "deque_new m = (if m < 0 then Inl ValueError else Inr \<lparr>maxlen = nat m, items = []\<rparr>)"

definition deque_append :: "'a deque \<Rightarrow> 'a \<Rightarrow> 'a deque" where
  "deque_append d x =
     (if maxlen d = 0 then d
      else if length (items d) = maxlen d then d\<lparr>items := tl (items d) @ [x]\<rparr>
      else d\<lparr>items := items d @ [x]\<rparr>)"

definition deque_clear :: "'a deque \<Rightarrow> 'a deque" where
  "deque_clear d = d\<lparr>items := []\<rparr>"

section \<open>Temporal analyzer (backend/core/temporal_analyzer.py)\<close>

definition WINDOW_SIZE :: int where
  "WINDOW_SIZE = 5"

record temporal_analyzer =
  window_size :: int
  score_history :: "real deque"
  window :: "real deque"

record snapshot =
  trend :: string
  escalation_score :: real
  prediction :: string
  window_scores :: "real list"
  chunk_count :: nat

text \<open>\<open>TemporalAnalyzer.__init__\<close>: the two bounded buffers.\<close>

definition TemporalAnalyzer :: "int \<Rightarrow> py_error + temporal_analyzer" where
  "TemporalAnalyzer ws =
     (case deque_new (ws * 3) of
        Inl e \<Rightarrow> Inl e
      | Inr h \<Rightarrow>
          (case deque_new ws of
             Inl e \<Rightarrow> Inl e
           | Inr w \<Rightarrow> Inr \<lparr>window_size = ws, score_history = h, window = w\<rparr>))"

definition reset :: "temporal_analyzer \<Rightarrow> temporal_analyzer" where
  "reset self =
     self\<lparr>score_history := deque_clear (score_history self),
          window := deque_clear (window self)\<rparr>"

text \<open>
  \<open>TemporalAnalyzer.analyze\<close>. The indices \<open>scores[-1]\<close>, \<open>scores[-2]\<close>,
  \<open>recent[0]\<close> and \<open>recent[i + 1]\<close> are read only under guards that keep them in
  range.
\<close>

definition analyze :: "temporal_analyzer \<Rightarrow> snapshot" where
  "analyze self =
     (let scores = items (window self);
          n = length scores
      in if n < 2 then
           \<lparr>trend = ''stable'', escalation_score = 0,
            prediction = ''insufficient data'',
            window_scores = scores, chunk_count = n\<rparr>
         else
           let is_spike =
                 (if 2 \<le> n then
                    (let current = scores ! (n - 1); previous = scores ! (n - 2)
                     in 85 / 100 < current \<and> previous < 4 / 10)
                  else False);
               is_rising =
                 (if 3 \<le> n then
                    (let recent = py_slice_from scores (- int (min n 5))
                     in if 3 \<le> length recent then
                          (let increases =
                                 length (filter (\<lambda>i. recent ! i < recent ! (i + 1))
                                           [0 ..< length recent - 1]);
                               delta = recent ! (length recent - 1) - recent ! 0
                           in int (length recent) - 2 \<le> int increases \<and> 15 / 100 < delta)
                        else False)
                  else False);
               is_sustained = (3 \<le> length (filter (\<lambda>s. 5 / 10 < s) scores));
               is_falling =
                 (if 3 \<le> n then
                    (let recent = py_slice_from scores (- int (min n 5))
                     in recent ! (length recent - 1) < recent ! 0 - 2 / 10)
                  else False);
               e0 = (0 :: real);
               e1 = (if is_spike then e0 + 4 / 10 else e0);
               e2 = (if is_rising then e1 + 3 / 10 else e1);
               e3 = (if is_sustained then e2 + 3 / 10 else e2);
               escalation = min e3 1;
               tr = (if is_spike then ''spike''
                     else if is_sustained then ''sustained''
                     else if is_rising then ''rising''
                     else if is_falling then ''falling''
                     else ''stable'');
               pr = (if tr = ''spike'' then ''sudden violent event detected''
                     else if tr = ''rising'' then ''violence likely to escalate''
                     else if tr = ''sustained'' then ''ongoing violent situation''
                     else if tr = ''falling'' then ''situation de-escalating''
                     else ''no escalation detected'')
           in \<lparr>trend = tr, escalation_score = py_round escalation 4,
               prediction = pr,
               window_scores = map (\<lambda>s. py_round s 4) scores,
               chunk_count = length (items (score_history self))\<rparr>)"

text \<open>\<open>TemporalAnalyzer.add_score\<close>: the snapshot and the updated analyzer.\<close>

definition add_score :: "temporal_analyzer \<Rightarrow> real \<Rightarrow> snapshot \<times> temporal_analyzer" where
  "add_score self score =
     (let self' = self\<lparr>score_history := deque_append (score_history self) score,
                       window := deque_append (window self) score\<rparr>
      in (analyze self', self'))"

text \<open>
  \<open>detect_escalation\<close>: the loop keeps the analyzer and the last result; a snapshot
  is a dictionary of five keys, hence truthy, so only \<open>None\<close> selects the default.
\<close>

fun detect_loop ::
  "temporal_analyzer \<Rightarrow> snapshot option \<Rightarrow> real list \<Rightarrow> temporal_analyzer \<times> snapshot option"
where
  "detect_loop analyzer result [] = (analyzer, result)"
| "detect_loop analyzer result (score # rest) =
     (case add_score analyzer score of
        (r, analyzer') \<Rightarrow> detect_loop analyzer' (Some r) rest)"

definition detect_escalation :: "real list \<Rightarrow> py_error + snapshot" where
  "detect_escalation scores =
     (case TemporalAnalyzer WINDOW_SIZE of
        Inl e \<Rightarrow> Inl e
      | Inr analyzer \<Rightarrow>
          (case snd (detect_loop analyzer None scores) of
             Some r \<Rightarrow> Inr r
           | None \<Rightarrow>
               Inr \<lparr>trend = ''stable'', escalation_score = 0, prediction = ''no data'',
                    window_scores = [], chunk_count = 0\<rparr>))"

text \<open>
  Streaming use, as the orchestrator drives it: the scores are fed one at a time and
  every call of \<open>add_score\<close> yields a snapshot.
\<close>

fun feed :: "temporal_analyzer \<Rightarrow> real list \<Rightarrow> snapshot list" where
  "feed analyzer [] = []"
| "feed analyzer (score # rest) =
     (case add_score analyzer score of (r, analyzer') \<Rightarrow> r # feed analyzer' rest)"

text \<open>
  The detection rules as the design states them, on a window whose most recent score
  is last: the last \<open>min(length, 5)\<close> scores, and the four boolean conditions.
\<close>

definition recent_scores :: "real list \<Rightarrow> real list" where
  "recent_scores w = drop (length w - min (length w) 5) w"

definition spike_cond :: "real list \<Rightarrow> bool" where
  "spike_cond w = (2 \<le> length w \<and> 85 / 100 < last w \<and> w ! (length w - 2) < 4 / 10)"

definition rising_cond :: "real list \<Rightarrow> bool" where
  "rising_cond w =
     (let r = recent_scores w
      in 3 \<le> length r \<and>
         length r - 2 \<le> length (filter (\<lambda>(a, b). a < b) (zip r (tl r))) \<and>
         15 / 100 < last r - hd r)"

definition sustained_cond :: "real list \<Rightarrow> bool" where
  "sustained_cond w = (3 \<le> length (filter (\<lambda>s. 1 / 2 < s) w))"

definition falling_cond :: "real list \<Rightarrow> bool" where
  "falling_cond w =
     (let r = recent_scores w in 3 \<le> length r \<and> last r < hd r - 2 / 10)"

text \<open>The analyzer after a sequence of scores has been added to it.\<close>

fun after :: "temporal_analyzer \<Rightarrow> real list \<Rightarrow> temporal_analyzer" where
  "after analyzer [] = analyzer"
| "after analyzer (score # rest) = after (snd (add_score analyzer score)) rest"

section \<open>Score fusion (backend/core/score_fusion.py)\<close>

definition dict_get :: "('k \<rightharpoonup> 'v) \<Rightarrow> 'k \<Rightarrow> 'v \<Rightarrow> 'v" where
  "dict_get d k dflt = (case d k of None \<Rightarrow> dflt | Some v \<Rightarrow> v)"

definition DEFAULT_WEIGHTS :: "string \<rightharpoonup> real" where
  "DEFAULT_WEIGHTS =
     [''w_acoustic'' \<mapsto> 5 / 10, ''w_nlp'' \<mapsto> 3 / 10, ''w_emotion'' \<mapsto> 2 / 10]"

record components =
  acoustic :: real
  nlp :: real
  emotion :: real

record fusion_result =
  fused_score :: real
  component_scores :: components
  fusion_mode :: string
  weights_used :: "string \<rightharpoonup> real"

definition fuse_scores ::
  "real \<Rightarrow> real \<Rightarrow> real \<Rightarrow> bool \<Rightarrow> (string \<rightharpoonup> real) option \<Rightarrow> fusion_result"
where
  "fuse_scores acoustic_score nlp_score emotion_score has_speech weights_arg =
     (let weights = (case weights_arg of None \<Rightarrow> DEFAULT_WEIGHTS | Some ws \<Rightarrow> ws);
          w_acoustic = dict_get weights ''w_acoustic'' (5 / 10);
          w_nlp = dict_get weights ''w_nlp'' (3 / 10);
          w_emotion = dict_get weights ''w_emotion'' (2 / 10);
          fused = (if has_speech
                   then w_acoustic * acoustic_score + w_nlp * nlp_score
                          + w_emotion * emotion_score
                   else acoustic_score);
          mode = (if has_speech then ''full'' else ''acoustic_only'');
          clamped = max 0 (min 1 fused)
      in \<lparr>fused_score = py_round clamped 4,
          component_scores =
            \<lparr>acoustic = py_round acoustic_score 4,
             nlp = (if has_speech then py_round nlp_score 4 else 0),
             emotion = (if has_speech then py_round emotion_score 4 else 0)\<rparr>,
          fusion_mode = mode,
          weights_used = weights\<rparr>)"

section \<open>Decision engine (backend/core/decision_engine.py)\<close>

text \<open>Values stored in the dictionaries the decision engine reads.\<close>

datatype py_value = PyStr string | PyFloat real | PyBool bool | PyNone

text \<open>\<open>f"{x:.2f}"\<close>: sign, integer part, and two decimals rounded half to even.\<close>

definition digit_char :: "nat \<Rightarrow> char" where
  "digit_char d = ''0123456789'' ! (d mod 10)"

fun str_nat :: "nat \<Rightarrow> string" where
  "str_nat n = (if n < 10 then [digit_char n] else str_nat (n div 10) @ [digit_char (n mod 10)])"

definition fmt_2f :: "real \<Rightarrow> string" where
  "fmt_2f x =
     (let n = nat (round_half_even (\<bar>x\<bar> * 100))
      in (if x < 0 then ''-'' else []) @ str_nat (n div 100) @ ''.''
           @ [digit_char (n div 10), digit_char n])"

text \<open>
  The temporal dictionary as \<open>determine_chunk_alert\<close> reads it: the two keys it
  looks up may be absent. An acoustic event is a dictionary whose \<open>class\<close> key may
  be absent.
\<close>

record temporal_dict =
  t_trend :: "string option"
  t_escalation_score :: "real option"

record acoustic_event =
  event_class :: "string option"
  event_score :: real

record chunk_decision =
  alert :: string
  explanation :: string
  reasons :: "string list"

text \<open>
  \<open>determine_chunk_alert\<close>. The subscript \<open>temporal['escalation_score']\<close> is
  evaluated only when the lookup with default 0 exceeded 0.3, that is, when the key is
  present. The parameter \<open>has_speech\<close> is not read.
\<close>

definition determine_chunk_alert ::
  "real \<Rightarrow> temporal_dict \<Rightarrow> acoustic_event list option \<Rightarrow> bool \<Rightarrow> bool \<Rightarrow> chunk_decision"
where
  "determine_chunk_alert score temporal acoustic_events has_speech nlp_threatening =
     (let r0 = [];
          r1 = (if 3 / 10 < score
                then r0 @ [''Elevated violence score ('' @ fmt_2f score @ '')'']
                else r0);
          r2 = (if t_trend temporal = Some ''spike''
                then r1 @ [''Sudden spike in violence indicators'']
                else r1);
          r3 = (if t_trend temporal = Some ''sustained'' \<and> 7 / 10 < score
                then r2 @ [''Sustained aggression (score: '' @ fmt_2f score @ '')'']
                else r2);
          r4 = (if t_trend temporal = Some ''rising''
                then r3 @ [''Violence indicators are rising'']
                else r3);
          r5 = (case t_escalation_score temporal of
                  None \<Rightarrow> r4
                | Some e \<Rightarrow>
                    if 3 / 10 < e
                    then r4 @ [''Escalation detected (score: '' @ fmt_2f e @ '')'']
                    else r4);
          r6 = (case acoustic_events of
                  None \<Rightarrow> r5
                | Some evs \<Rightarrow>
                    if evs \<noteq> [] then
                      (let event_names =
                             map (\<lambda>e. case event_class e of
                                         None \<Rightarrow> ''unknown'' | Some c \<Rightarrow> c)
                                 (py_slice_to evs 3)
                       in r5 @ [''Violent sounds detected: '' @ py_join '', '' event_names])
                    else r5);
          r7 = (if nlp_threatening
                then r6 @ [''Threatening language detected in speech'']
                else r6)
      in if r7 \<noteq> [] then
           \<lparr>alert = ''Violence'', explanation = py_join ''; '' r7, reasons = r7\<rparr>
         else
           \<lparr>alert = ''Safe'', explanation = ''No violence indicators detected'',
            reasons = []\<rparr>)"

record overall_decision =
  violence_detected :: bool
  overall_alert :: string
  total_chunks :: nat
  violence_chunks :: nat
  safe_chunks :: nat

definition determine_overall_alert :: "(string \<rightharpoonup> py_value) list \<Rightarrow> overall_decision" where
  "determine_overall_alert chunk_results =
     (let alerts = map (\<lambda>r. dict_get r ''alert'' (PyStr ''Safe'')) chunk_results;
          violence_count = count_list alerts (PyStr ''Violence'');
          safe_count = count_list alerts (PyStr ''Safe'')
      in \<lparr>violence_detected = (0 < violence_count),
          overall_alert = (if 0 < violence_count then ''Violence'' else ''Safe''),
          total_chunks = length alerts,
          violence_chunks = violence_count,
          safe_chunks = safe_count\<rparr>)"

section \<open>Audio chunker (backend/utils/chunker.py)\<close>

record audio_chunk =
  chunk_id :: int
  start_time :: real
  end_time :: real
  waveform :: "real list"

text \<open>\<open>np.zeros(n)\<close>, and \<open>dst[:k] = src\<close> for one-dimensional arrays.\<close>

definition np_zeros :: "int \<Rightarrow> py_error + real list" where
  "np_zeros n = (if n < 0 then Inl ValueError else Inr (replicate (nat n) 0))"

definition np_assign_prefix :: "real list \<Rightarrow> int \<Rightarrow> real list \<Rightarrow> py_error + real list" where
  "np_assign_prefix dst k src =
     (let m = slice_bound (length dst) k
      in if length src = m then Inr (src @ drop m dst)
         else if length src = 1 then Inr (replicate m (src ! 0) @ drop m dst)
         else Inl ValueError)"

text \<open>
  The \<open>while\<close> loop of \<open>chunk_audio\<close>, on the list of chunks, the next chunk id and
  the start offset. The loop is not bounded by the source; \<open>None\<close> stands for a
  call that does not return.
\<close>

partial_function (option) chunk_loop ::
  "real list \<Rightarrow> int \<Rightarrow> int \<Rightarrow> int \<Rightarrow> int \<Rightarrow> audio_chunk list \<Rightarrow> int \<Rightarrow> int
     \<Rightarrow> (py_error + audio_chunk list) option"
where
  "chunk_loop samples sr chunk_samples stride_samples min_samples chunks cid start =
     (let total_samples = int (length samples) in
      if start < total_samples then
        (let end = start + chunk_samples in
         if end \<le> total_samples then
           (if sr = 0 then Some (Inl ZeroDivisionError)
            else
              chunk_loop samples sr chunk_samples stride_samples min_samples
                (chunks @
                   [\<lparr>chunk_id = cid,
                     start_time = py_round (of_int start / of_int sr) 3,
                     end_time = py_round (of_int (min end total_samples) / of_int sr) 3,
                     waveform = py_slice samples start end\<rparr>])
                (cid + 1) (start + stride_samples))
         else
           (let remaining = total_samples - start in
            if remaining < min_samples then Some (Inr chunks)
            else
              (case np_zeros chunk_samples of
                 Inl e \<Rightarrow> Some (Inl e)
               | Inr zeros \<Rightarrow>
                   (case np_assign_prefix zeros remaining
                           (py_slice samples start total_samples) of
                      Inl e \<Rightarrow> Some (Inl e)
                    | Inr chunk_waveform \<Rightarrow>
                        if sr = 0 then Some (Inl ZeroDivisionError)
                        else
                          chunk_loop samples sr chunk_samples stride_samples min_samples
                            (chunks @
                               [\<lparr>chunk_id = cid,
                                 start_time = py_round (of_int start / of_int sr) 3,
                                 end_time =
                                   py_round (of_int (min end total_samples) / of_int sr) 3,
                                 waveform = chunk_waveform\<rparr>])
                            (cid + 1) (start + stride_samples)))))
      else Some (Inr chunks))"

definition chunk_audio ::
  "real list \<Rightarrow> int \<Rightarrow> real \<Rightarrow> real \<Rightarrow> real \<Rightarrow> (py_error + audio_chunk list) option"
where
  "chunk_audio samples sr chunk_duration overlap min_chunk_duration =
     (let chunk_samples = py_int (chunk_duration * of_int sr);
          stride_samples = py_int ((chunk_duration - overlap) * of_int sr);
          min_samples = py_int (min_chunk_duration * of_int sr);
          total_samples = int (length samples)
      in if total_samples \<le> chunk_samples then
           (case (if total_samples < chunk_samples then
                    (case np_zeros chunk_samples of
                       Inl e \<Rightarrow> Inl e
                     | Inr padded \<Rightarrow> np_assign_prefix padded total_samples samples)
                  else Inr samples) of
              Inl e \<Rightarrow> Some (Inl e)
            | Inr waveform_padded \<Rightarrow>
                if sr = 0 then Some (Inl ZeroDivisionError)
                else Some (Inr [\<lparr>chunk_id = 0, start_time = 0,
                                 end_time = of_int total_samples / of_int sr,
                                 waveform = waveform_padded\<rparr>]))
         else chunk_loop samples sr chunk_samples stride_samples min_samples [] 0 0)"

section \<open>Verification\<close>

subsection \<open>Trend conditions and the label reported\<close>

lemma zip_tl_nth: "zip r (tl r) = map (\<lambda>i. (r ! i, r ! (i + 1))) [0 ..< length r - 1]"
  by (rule nth_equalityI) (auto simp: nth_tl)

lemma increases_count:
  "length (filter (\<lambda>i. r ! i < r ! (i + 1)) [0 ..< length r - 1])
     = length (filter (\<lambda>(a, b). (a::real) < b) (zip r (tl r)))"
  by (simp add: zip_tl_nth filter_map o_def)

lemma recent_slice:
  "3 \<le> length w \<Longrightarrow> py_slice_from w (- int (min (length w) 5)) = recent_scores w"
  by (simp add: py_slice_from_def slice_bound_def recent_scores_def min_def nat_diff_distrib')

lemma length_recent: "length (recent_scores w) = min (length w) 5"
  by (simp add: recent_scores_def)

lemma short_window_no_cond:
  assumes "length w < 2"
  shows "\<not> spike_cond w" "\<not> sustained_cond w" "\<not> rising_cond w" "\<not> falling_cond w"
proof -
  show "\<not> spike_cond w" using assms by (simp add: spike_cond_def)
  have "length (filter (\<lambda>s. 1 / 2 < s) w) \<le> length w" by (rule length_filter_le)
  then show "\<not> sustained_cond w" using assms unfolding sustained_cond_def by linarith
  show "\<not> rising_cond w" using assms by (simp add: rising_cond_def Let_def length_recent)
  show "\<not> falling_cond w" using assms by (simp add: falling_cond_def Let_def length_recent)
qed

lemma rising_cond_index:
  "rising_cond w =
      (3 \<le> length w \<and>
       int (length (recent_scores w)) - 2
          \<le> int (length (filter (\<lambda>i. recent_scores w ! i < recent_scores w ! (i + 1))
                   [0 ..< length (recent_scores w) - 1])) \<and>
       15 / 100 < recent_scores w ! (length (recent_scores w) - 1) - recent_scores w ! 0)"
proof -
  define r where "r = recent_scores w"
  define k where "k = length (filter (\<lambda>i. r ! i < r ! (i + 1)) [0 ..< length r - 1])"
  have k: "length (filter (\<lambda>(a, b). a < b) (zip r (tl r))) = k"
    unfolding k_def by (rule increases_count [symmetric])
  have len: "(3 \<le> length r) = (3 \<le> length w)"
    by (simp add: r_def length_recent)
  have ends: "last r = r ! (length r - 1)" "hd r = r ! 0" if "3 \<le> length r"
    using that by (cases r; simp add: last_conv_nth)+
  have "rising_cond w = (3 \<le> length r \<and> length r - 2 \<le> k \<and> 15 / 100 < last r - hd r)"
    unfolding rising_cond_def Let_def r_def [symmetric] k ..
  also have "\<dots> = (3 \<le> length w \<and> int (length r) - 2 \<le> int k
                     \<and> 15 / 100 < r ! (length r - 1) - r ! 0)"
    using len ends by (cases "3 \<le> length r") auto
  finally show ?thesis unfolding k_def r_def .
qed

lemma falling_cond_index:
  "falling_cond w =
      (3 \<le> length w \<and>
       recent_scores w ! (length (recent_scores w) - 1) < recent_scores w ! 0 - 2 / 10)"
proof -
  define r where "r = recent_scores w"
  have len: "(3 \<le> length r) = (3 \<le> length w)"
    by (simp add: r_def length_recent)
  have ends: "last r = r ! (length r - 1)" "hd r = r ! 0" if "3 \<le> length r"
    using that by (cases r; simp add: last_conv_nth)+
  have "falling_cond w = (3 \<le> length r \<and> last r < hd r - 2 / 10)"
    unfolding falling_cond_def Let_def r_def [symmetric] ..
  also have "\<dots> = (3 \<le> length w \<and> r ! (length r - 1) < r ! 0 - 2 / 10)"
    using len ends by (cases "3 \<le> length r") auto
  finally show ?thesis unfolding r_def .
qed

lemma spike_cond_index:
  "2 \<le> length w \<Longrightarrow>
     spike_cond w = (85 / 100 < w ! (length w - 1) \<and> w ! (length w - 2) < 4 / 10)"
  by (cases "w = []") (auto simp: spike_cond_def last_conv_nth)

text \<open>
  C2. Whatever the window holds, and however many of the four conditions hold at once,
  \<open>analyze\<close> reports the single label picked by the priority spike, sustained,
  rising, falling, stable.
\<close>

theorem analyze_trend_priority:
  "trend (analyze self) =
     (if spike_cond (items (window self)) then ''spike''
      else if sustained_cond (items (window self)) then ''sustained''
      else if rising_cond (items (window self)) then ''rising''
      else if falling_cond (items (window self)) then ''falling''
      else ''stable'')"
proof (cases "length (items (window self)) < 2")
  case True
  then show ?thesis
    by (simp add: analyze_def short_window_no_cond Let_def)
next
  case False
  define w where "w = items (window self)"
  have n2: "2 \<le> length w" using False by (simp add: w_def)
  show ?thesis
  proof (cases "3 \<le> length w")
    case True
    then have lr: "3 \<le> length (recent_scores w)" by (simp add: length_recent)
    show ?thesis
      using False n2 True lr
      unfolding w_def [symmetric] spike_cond_index [OF n2]
        rising_cond_index falling_cond_index sustained_cond_def analyze_def
      by (simp add: Let_def recent_slice w_def [symmetric])
  next
    case n3: False
    show ?thesis
      using False n2 n3
      unfolding w_def [symmetric] spike_cond_index [OF n2]
        rising_cond_index falling_cond_index sustained_cond_def analyze_def
      by (simp add: Let_def w_def [symmetric])
  qed
qed

theorem analyze_trend_priority_witness:
  "spike_cond [1/10, 6/10, 7/10, 3/10, 9/10] \<and> sustained_cond [1/10, 6/10, 7/10, 3/10, 9/10]
   \<and> rising_cond [1/10, 6/10, 7/10, 3/10, 9/10]
   \<and> trend (analyze \<lparr>window_size = 5,
         score_history = \<lparr>maxlen = 15, items = [1/10, 6/10, 7/10, 3/10, 9/10]\<rparr>,
         window = \<lparr>maxlen = 5, items = [1/10, 6/10, 7/10, 3/10, 9/10]\<rparr>\<rparr>) = ''spike''"
  using analyze_trend_priority [of "\<lparr>window_size = 5,
         score_history = \<lparr>maxlen = 15, items = [1/10, 6/10, 7/10, 3/10, 9/10]\<rparr>,
         window = \<lparr>maxlen = 5, items = [1/10, 6/10, 7/10, 3/10, 9/10]\<rparr>\<rparr>"]
  by (simp add: spike_cond_def sustained_cond_def rising_cond_def recent_scores_def Let_def)

subsection \<open>Buffers of the analyzer and the snapshots of a session\<close>

lemma maxlen_deque_append [simp]: "maxlen (deque_append d x) = maxlen d"
  by (simp add: deque_append_def)

lemma length_deque_append:
  "length (items d) \<le> maxlen d \<Longrightarrow>
     length (items (deque_append d x)) = min (Suc (length (items d))) (maxlen d)"
  by (cases "items d") (auto simp: deque_append_def)

lemma after_buffers:
  assumes "length (items (window a)) \<le> maxlen (window a)"
      and "length (items (score_history a)) \<le> maxlen (score_history a)"
  shows "length (items (window (after a ss)))
           = min (length (items (window a)) + length ss) (maxlen (window a))
       \<and> length (items (score_history (after a ss)))
           = min (length (items (score_history a)) + length ss) (maxlen (score_history a))
       \<and> maxlen (window (after a ss)) = maxlen (window a)
       \<and> maxlen (score_history (after a ss)) = maxlen (score_history a)"
  using assms
proof (induction ss arbitrary: a)
  case Nil
  then show ?case by simp
next
  case (Cons s ss)
  let ?a = "snd (add_score a s)"
  have w: "length (items (window ?a)) = min (Suc (length (items (window a)))) (maxlen (window a))"
    using Cons.prems(1) by (simp add: add_score_def Let_def length_deque_append)
  have h: "length (items (score_history ?a))
             = min (Suc (length (items (score_history a)))) (maxlen (score_history a))"
    using Cons.prems(2) by (simp add: add_score_def Let_def length_deque_append)
  have m: "maxlen (window ?a) = maxlen (window a)"
          "maxlen (score_history ?a) = maxlen (score_history a)"
    by (simp_all add: add_score_def Let_def)
  have "length (items (window ?a)) \<le> maxlen (window ?a)"
       "length (items (score_history ?a)) \<le> maxlen (score_history ?a)"
    using w h m by simp_all
  from Cons.IH [OF this] show ?case
    using w h m Cons.prems by (simp add: min_def)
qed

lemma fresh_analyzer:
  "TemporalAnalyzer ws = Inr a \<Longrightarrow>
     0 \<le> ws \<and> items (window a) = [] \<and> items (score_history a) = []
       \<and> maxlen (window a) = nat ws \<and> maxlen (score_history a) = nat (ws * 3)"
  by (auto simp: TemporalAnalyzer_def deque_new_def split: if_splits)

lemma default_analyzer:
  "TemporalAnalyzer WINDOW_SIZE =
     Inr \<lparr>window_size = 5, score_history = \<lparr>maxlen = 15, items = []\<rparr>,
          window = \<lparr>maxlen = 5, items = []\<rparr>\<rparr>"
  by (simp add: TemporalAnalyzer_def deque_new_def WINDOW_SIZE_def)

lemma length_feed [simp]: "length (feed a ss) = length ss"
  by (induction ss arbitrary: a) (auto split: prod.splits)

lemma feed_Nil_iff [simp]: "(feed a ss = []) = (ss = [])"
  using length_feed [of a ss] by (metis length_0_conv)

lemma feed_nth: "i < length ss \<Longrightarrow> feed a ss ! i = analyze (after a (take (Suc i) ss))"
proof (induction ss arbitrary: a i)
  case Nil
  then show ?case by simp
next
  case (Cons s ss)
  show ?case
  proof (cases i)
    case 0
    then show ?thesis by (simp add: add_score_def Let_def)
  next
    case (Suc j)
    then show ?thesis using Cons by (simp add: add_score_def Let_def)
  qed
qed

lemma last_feed: "ss \<noteq> [] \<Longrightarrow> last (feed a ss) = analyze (after a ss)"
  using feed_nth [of "length ss - 1" ss a]
  by (simp add: last_conv_nth)


lemma chunk_count_analyze:
  "chunk_count (analyze a) =
     (if length (items (window a)) < 2 then length (items (window a))
      else length (items (score_history a)))"
  by (simp add: analyze_def Let_def)

lemma detect_loop_last:
  "snd (detect_loop a r ss) = (if ss = [] then r else Some (last (feed a ss)))"
  by (induction ss arbitrary: a r) (auto split: prod.splits)


lemma fresh_chunk_count:
  assumes "TemporalAnalyzer ws = Inr a" and "ss \<noteq> []"
  shows "chunk_count (last (feed a ss)) =
           (if min (length ss) (nat ws) < 2 then min (length ss) (nat ws)
            else min (length ss) (nat (ws * 3)))"
proof -
  from fresh_analyzer [OF assms(1)] have f: "items (window a) = []" "items (score_history a) = []"
    "maxlen (window a) = nat ws" "maxlen (score_history a) = nat (ws * 3)" by simp_all
  have "length (items (window (after a ss))) = min (length ss) (nat ws)"
       "length (items (score_history (after a ss))) = min (length ss) (nat (ws * 3))"
    using after_buffers [of a ss] f by simp_all
  then show ?thesis
    using assms(2) by (simp add: last_feed chunk_count_analyze)
qed

text \<open>
  C1. The snapshot of \<open>add_score\<close> takes \<open>chunk_count\<close> from the length of the
  bounded history buffer: on a fresh default analyzer (window 5, history capacity 15)
  the snapshot of the sixteenth score reports 15, not the 16 scores added so far.
\<close>

theorem chunk_count_after_16_scores:
  "TemporalAnalyzer WINDOW_SIZE =
     Inr \<lparr>window_size = 5, score_history = \<lparr>maxlen = 15, items = []\<rparr>,
          window = \<lparr>maxlen = 5, items = []\<rparr>\<rparr>
   \<and> length (replicate 16 (6 / 10 :: real)) = 16
   \<and> chunk_count
        (last (feed \<lparr>window_size = 5, score_history = \<lparr>maxlen = 15, items = []\<rparr>,
                     window = \<lparr>maxlen = 5, items = []\<rparr>\<rparr>
                 (replicate 16 (6 / 10)))) = 15"
  using fresh_chunk_count [OF default_analyzer, of "replicate 16 (6 / 10)"] default_analyzer
  by (simp add: WINDOW_SIZE_def)

text \<open>
  C7. For a non-empty list of scores, \<open>detect_escalation\<close> constructs the default
  analyzer and returns exactly the snapshot of the last \<open>add_score\<close> of a session
  that feeds the same scores, in order, into that fresh analyzer.
\<close>

theorem detect_escalation_last_snapshot:
  "scores \<noteq> [] \<Longrightarrow>
     \<exists>analyzer. TemporalAnalyzer WINDOW_SIZE = Inr analyzer
        \<and> detect_escalation scores = Inr (last (feed analyzer scores))"
  by (simp add: detect_escalation_def detect_loop_last default_analyzer)

theorem detect_escalation_last_snapshot_witness:
  "[1 / 10, 9 / 10 :: real] \<noteq> []
   \<and> detect_escalation [1 / 10, 9 / 10]
       = Inr (last (feed \<lparr>window_size = 5, score_history = \<lparr>maxlen = 15, items = []\<rparr>,
                          window = \<lparr>maxlen = 5, items = []\<rparr>\<rparr> [1 / 10, 9 / 10]))"
  using detect_escalation_last_snapshot [of "[1 / 10, 9 / 10]"] default_analyzer
  by auto

subsection \<open>Score fusion\<close>

lemma round_half_even_cases:
  "round_half_even x = \<lfloor>x\<rfloor> \<or> (round_half_even x = \<lfloor>x\<rfloor> + 1 \<and> 1 / 2 \<le> x - of_int \<lfloor>x\<rfloor>)"
  by (auto simp: round_half_even_def Let_def)

lemma round_half_even_bounds:
  assumes "0 \<le> x" and "x \<le> of_int N"
  shows "0 \<le> round_half_even x \<and> round_half_even x \<le> N"
proof -
  have f0: "0 \<le> \<lfloor>x\<rfloor>" using assms(1) by simp
  have fN: "\<lfloor>x\<rfloor> \<le> N" using assms(2) by (simp add: floor_le_iff)
  consider "round_half_even x = \<lfloor>x\<rfloor>"
    | "round_half_even x = \<lfloor>x\<rfloor> + 1" "1 / 2 \<le> x - of_int \<lfloor>x\<rfloor>"
    using round_half_even_cases [of x] by blast
  then show ?thesis
  proof cases
    case 1
    then show ?thesis using f0 fN by simp
  next
    case 2
    then have "of_int \<lfloor>x\<rfloor> < x" by linarith
    then have "of_int \<lfloor>x\<rfloor> < (of_int N :: real)" using assms(2) by linarith
    then have "\<lfloor>x\<rfloor> < N" by simp
    then show ?thesis using 2 f0 by simp
  qed
qed

lemma round_half_even_of_int [simp]: "round_half_even (of_int k) = k"
  by (simp add: round_half_even_def)

lemma py_round_unit:
  assumes "0 \<le> x" and "x \<le> 1"
  shows "0 \<le> py_round x 4 \<and> py_round x 4 \<le> 1"
proof -
  have "0 \<le> x * 10 ^ 4" "x * 10 ^ 4 \<le> of_int 10000" using assms by simp_all
  from round_half_even_bounds [OF this]
  show ?thesis by (simp add: py_round_def)
qed

lemma py_round_grid: "py_round (of_int k / 10000) 4 = of_int k / 10000"
proof -
  have "(of_int k / 10000 :: real) * 10 ^ 4 = of_int k" by simp
  then show ?thesis unfolding py_round_def by simp
qed

text \<open>
  C6. Whatever the three scores, the speech flag and the weights map are, the fused
  score that \<open>fuse_scores\<close> returns lies between 0 and 1.
\<close>

theorem fused_score_in_unit_interval:
  "0 \<le> fused_score (fuse_scores acoustic_score nlp_score emotion_score has_speech weights)
   \<and> fused_score (fuse_scores acoustic_score nlp_score emotion_score has_speech weights) \<le> 1"
  by (simp add: fuse_scores_def Let_def py_round_unit)

text \<open>
  C5, as stated, fails: without speech the fused score is not always the acoustic score
  itself. An acoustic score of 1.5 is clamped to 1, and 0.046875 is rounded to 0.0469.
\<close>

theorem fuse_no_speech_counterexample:
  "fused_score (fuse_scores (3 / 2) 0 0 False None) \<noteq> 3 / 2
   \<and> fused_score (fuse_scores (3 / 64) 0 0 False None) \<noteq> 3 / 64"
  by (simp add: fuse_scores_def Let_def py_round_def round_half_even_def)

text \<open>
  C5, amended. Without speech, two calls that differ only in the nlp and emotion inputs
  return identical results; the mode is \<open>acoustic_only\<close> and the fused score is the
  acoustic score clamped to the unit interval and rounded to four decimals, which is the
  acoustic score itself when that lies in the unit interval and has at most four
  decimals (0.7 yields 0.7).
\<close>

theorem fuse_no_speech_ignores_speech_inputs:
  "fuse_scores acoustic_score nlp1 emotion1 False weights
     = fuse_scores acoustic_score nlp2 emotion2 False weights
   \<and> fusion_mode (fuse_scores acoustic_score nlp1 emotion1 False weights) = ''acoustic_only''
   \<and> fused_score (fuse_scores acoustic_score nlp1 emotion1 False weights)
       = py_round (max 0 (min 1 acoustic_score)) 4
   \<and> (0 \<le> acoustic_score \<and> acoustic_score \<le> 1
        \<and> (\<exists>k :: int. acoustic_score = of_int k / 10000)
      \<longrightarrow> fused_score (fuse_scores acoustic_score nlp1 emotion1 False weights)
            = acoustic_score)"
proof -
  let ?r = "fuse_scores acoustic_score nlp1 emotion1 False weights"
  have eq: "?r = fuse_scores acoustic_score nlp2 emotion2 False weights"
    by (simp add: fuse_scores_def Let_def)
  have mode: "fusion_mode ?r = ''acoustic_only''"
    by (simp add: fuse_scores_def Let_def)
  have val: "fused_score ?r = py_round (max 0 (min 1 acoustic_score)) 4"
    by (simp add: fuse_scores_def Let_def)
  have "fused_score ?r = acoustic_score"
    if "0 \<le> acoustic_score" "acoustic_score \<le> 1" "acoustic_score = of_int k / 10000" for k :: int
  proof -
    have m: "max 0 (min 1 acoustic_score) = acoustic_score" using that(1,2) by simp
    have "fused_score ?r = py_round acoustic_score 4" using val by (simp only: m)
    also have "\<dots> = py_round (of_int k / 10000) 4" by (simp only: that(3))
    also have "\<dots> = of_int k / 10000" by (rule py_round_grid)
    also have "\<dots> = acoustic_score" by (simp only: that(3))
    finally show ?thesis .
  qed
  then show ?thesis using eq mode val by blast
qed

theorem fuse_no_speech_ignores_speech_inputs_witness:
  "fuse_scores (7 / 10) (8 / 10) (6 / 10) False None = fuse_scores (7 / 10) 0 0 False None
   \<and> fusion_mode (fuse_scores (7 / 10) (8 / 10) (6 / 10) False None) = ''acoustic_only''
   \<and> fused_score (fuse_scores (7 / 10) (8 / 10) (6 / 10) False None) = 7 / 10"
proof -
  have "\<exists>k :: int. (7 / 10 :: real) = of_int k / 10000"
    by (rule exI [of _ 7000]) simp
  moreover have "0 \<le> (7 / 10 :: real)" "(7 / 10 :: real) \<le> 1" by simp_all
  ultimately show ?thesis
    using fuse_no_speech_ignores_speech_inputs [of "7 / 10" "8 / 10" "6 / 10" None 0 0]
    by blast
qed

lemma fuse_full_example:
  "fused_score (fuse_scores (7 / 10) (8 / 10) (6 / 10) True None) = 71 / 100"
  by (simp add: fuse_scores_def Let_def DEFAULT_WEIGHTS_def dict_get_def py_round_def round_half_even_def)

end
